theory Spec2Isabelle
  imports Complex_Main "HOL-Library.Product_Lexorder" "HOL-Library.List_Lexorder"
    "HOL-Library.Char_ord"
begin

section \<open>Data model of the matching algorithm\<close>

text \<open>
  The scoring functions are the Python of the design document
  (backend/docs/SCRAPER_DATA_SCHEMA.md, section "Matching Algorithm").  Python floats
  are modelled as exact reals, Python strings as \<open>string\<close>, \<open>Optional\<close> fields as
  \<open>option\<close>, and a \<open>dict\<close> as an association list read through \<open>dict_get\<close>.
\<close>

datatype py_error = ZeroDivisionError | TypeError | JSONDecodeError | ScrapeError

record fit_profile =
  width_runs :: "string option"
  works_well_for :: "string list option"
  avoid_if :: "string list option"
  overall_sentiment :: "real option"

record running_attributes =
  subcategory :: "string option"

record shoe =
  ident :: string
  category :: string
  fit_profile :: fit_profile
  running_attributes :: running_attributes
  current_price_min :: "real option"

record foot_profile =
  width :: "string option"
  arch :: "string option"
  pronation :: "string option"

record previous_shoe =
  prev_shoe_id :: string
  prev_liked :: bool
  prev_notes :: string

record user_profile =
  up_category :: string
  foot :: foot_profile
  foot_issues :: "string list"
  preferences :: "(string \<times> string) list"
  priorities :: "string list"
  distances :: "string list"
  position :: "string option"
  budget :: "real option"
  previous_shoes :: "previous_shoe list"

text \<open>Python's \<open>x or d\<close> on an optional string: \<open>None\<close> and the empty string are falsy.\<close>

definition str_or :: "string option \<Rightarrow> string \<Rightarrow> string" where
  "str_or x d = (case x of None \<Rightarrow> d | Some s \<Rightarrow> if s = [] then d else s)"

text \<open>Python's \<open>xs or []\<close> on an optional list.\<close>

definition list_or_empty :: "'a list option \<Rightarrow> 'a list" where
  "list_or_empty x = (case x of None \<Rightarrow> [] | Some xs \<Rightarrow> xs)"

text \<open>Python's \<open>x or d\<close> on an optional float: \<open>None\<close> and \<open>0.0\<close> are falsy.\<close>

definition float_or :: "real option \<Rightarrow> real \<Rightarrow> real" where
  "float_or x d = (case x of None \<Rightarrow> d | Some v \<Rightarrow> if v = 0 then d else v)"

text \<open>\<open>d.get(key, default)\<close> on a dict held as an association list.\<close>

definition dict_get :: "('k \<times> 'v) list \<Rightarrow> 'k \<Rightarrow> 'v \<Rightarrow> 'v" where
  "dict_get d key dflt = (case map_of d key of None \<Rightarrow> dflt | Some v \<Rightarrow> v)"

section \<open>Component scoring functions\<close>

definition width_map :: "((string \<times> string) \<times> real) list" where
  "width_map =
    [((''narrow'', ''narrow''), 1.0),
     ((''narrow'', ''standard''), 0.5),
     ((''narrow'', ''wide''), 0.1),
     ((''true'', ''narrow''), 0.7),
     ((''true'', ''standard''), 1.0),
     ((''true'', ''wide''), 0.7),
     ((''wide'', ''narrow''), 0.1),
     ((''wide'', ''standard''), 0.6),
     ((''wide'', ''wide''), 1.0)]"

definition calculate_width_match :: "fit_profile \<Rightarrow> foot_profile \<Rightarrow> real" where
  "calculate_width_match fp ft =
    (let shoe_width = str_or (width_runs fp) ''true'';
         user_width = str_or (width ft) ''standard''
     in dict_get width_map (shoe_width, user_width) 0.5)"

definition support_map :: "((string option \<times> string) \<times> real) list" where
  "support_map =
    [((Some ''neutral'', ''neutral''), 1.0),
     ((Some ''neutral'', ''overpronation''), 0.3),
     ((Some ''neutral'', ''underpronation''), 0.8),
     ((Some ''stability'', ''neutral''), 0.7),
     ((Some ''stability'', ''overpronation''), 1.0),
     ((Some ''stability'', ''underpronation''), 0.4),
     ((Some ''motion_control'', ''neutral''), 0.4),
     ((Some ''motion_control'', ''overpronation''), 0.9),
     ((Some ''motion_control'', ''underpronation''), 0.2)]"

definition calculate_pronation_match :: "shoe \<Rightarrow> foot_profile \<Rightarrow> real" where
  "calculate_pronation_match sh ft =
    (if category sh \<noteq> ''running'' then 1.0
     else let attrs = running_attributes sh;
              user_pronation = str_or (pronation ft) ''neutral''
          in dict_get support_map (subcategory attrs, user_pronation) 0.5)"

text \<open>
  The body of the loop of \<open>calculate_issue_compatibility\<close>: one stated issue updates the
  running score; the \<open>elif\<close> makes the avoid branch win over the bonus branch.
  The products are exact here.  The program's doubles agree with them up to rounding as
  long as every intermediate product stays in the normal range, which an issue list of at
  most 300 entries guarantees (between \<open>0.1 ^ 300\<close> and \<open>1.2 ^ 300\<close>); a longer
  list can underflow to \<open>0.0\<close> in the program, so statements about the sign of the
  factor are made for lists within that bound only.
\<close>

definition issue_step :: "fit_profile \<Rightarrow> real \<Rightarrow> string \<Rightarrow> real" where
  "issue_step fit score issue =
    (if issue \<in> set (list_or_empty (avoid_if fit)) then score * 0.1
     else if issue \<in> set (list_or_empty (works_well_for fit)) then score * 1.2
     else score)"

definition calculate_issue_compatibility :: "shoe \<Rightarrow> string list \<Rightarrow> real" where
  "calculate_issue_compatibility sh issues =
    (if issues = [] then 1.0
     else let fit = fit_profile sh;
              score = foldl (issue_step fit) 1.0 issues
          in min score 1.0)"

section \<open>The scoring formula\<close>

text \<open>
  \<open>calculate_match_score\<close> calls eight factor functions whose bodies the design document
  does not give.  They are parameters of the model, with the argument types of their call
  sites; every theorem below holds for all of them.
\<close>

record factor_functions =
  calculate_terrain_match :: "shoe \<Rightarrow> user_profile \<Rightarrow> real"
  calculate_arch_match :: "shoe \<Rightarrow> foot_profile \<Rightarrow> real"
  calculate_cushion_match :: "shoe \<Rightarrow> (string \<times> string) list \<Rightarrow> real"
  calculate_priority_match :: "shoe \<Rightarrow> string list \<Rightarrow> real"
  calculate_distance_match :: "shoe \<Rightarrow> string list \<Rightarrow> real"
  calculate_position_match :: "shoe \<Rightarrow> string option \<Rightarrow> real"
  calculate_budget_match :: "real option \<Rightarrow> real option \<Rightarrow> real"
  calculate_history_match :: "shoe \<Rightarrow> previous_shoe list \<Rightarrow> real"

type_synonym weights = "(string \<times> real) list"

text \<open>
  The \<open>scores\<close> dict as it stands when the weighted combination is reached, in insertion
  order; \<open>'history'\<close> is only inserted when previous shoes were supplied.
\<close>

definition factor_scores :: "factor_functions \<Rightarrow> shoe \<Rightarrow> user_profile \<Rightarrow> (string \<times> real) list" where
  "factor_scores F sh up =
    [(''terrain'', calculate_terrain_match F sh up),
     (''width'', calculate_width_match (fit_profile sh) (foot up)),
     (''arch'', calculate_arch_match F sh (foot up)),
     (''pronation'', calculate_pronation_match sh (foot up)),
     (''issues'', calculate_issue_compatibility sh (foot_issues up)),
     (''cushion'', calculate_cushion_match F sh (preferences up)),
     (''priorities'', calculate_priority_match F sh (priorities up)),
     (''distance'', calculate_distance_match F sh (distances up)),
     (''position'', calculate_position_match F sh (position up)),
     (''budget'', calculate_budget_match F (current_price_min sh) (budget up))]
    @ (if previous_shoes up \<noteq> []
       then [(''history'', calculate_history_match F sh (previous_shoes up))] else [])
    @ [(''sentiment'', float_or (overall_sentiment (fit_profile sh)) 0.5)]"

text \<open>
  The weighted combination: \<open>sum(scores.get(key, 0.5) * weights.get(key, 1.0) for key in
  weights.keys()) / sum(weights.values())\<close>.  A zero divisor raises in Python.
\<close>

definition weighted_combination :: "(string \<times> real) list \<Rightarrow> weights \<Rightarrow> py_error + real" where
  "weighted_combination scores ws =
    (let num = sum_list (map (\<lambda>key. dict_get scores key 0.5 * dict_get ws key 1.0) (map fst ws));
         den = sum_list (map snd ws)
     in if den = 0 then Inl ZeroDivisionError else Inr (num / den))"

definition calculate_match_score ::
    "factor_functions \<Rightarrow> shoe \<Rightarrow> user_profile \<Rightarrow> weights \<Rightarrow> py_error + real" where
  "calculate_match_score F sh up ws =
    (if category sh \<noteq> up_category up then Inr 0.0
     else if calculate_terrain_match F sh up = 0 then Inr 0.0
     else weighted_combination (factor_scores F sh up) ws)"

definition DEFAULT_WEIGHTS :: weights where
  "DEFAULT_WEIGHTS =
    [(''terrain'', 2.0), (''pronation'', 1.8), (''issues'', 1.8),
     (''width'', 1.5), (''arch'', 1.3), (''priorities'', 1.3), (''cushion'', 1.2),
     (''distance'', 1.0), (''position'', 1.0), (''budget'', 1.0),
     (''history'', 0.8), (''sentiment'', 0.5)]"

text \<open>
  A weight vector is a dict, so its keys are distinct; the optimizer clamps every weight
  it touches to [0.1, 3.0] (\<open>max(0.1, min(3.0, w))\<close>), the valid clamp range.
\<close>

definition in_clamp_range :: "weights \<Rightarrow> bool" where
  "in_clamp_range ws = list_all (\<lambda>kw. 0.1 \<le> snd kw \<and> snd kw \<le> 3.0) ws"

text \<open>
  How many stated issues take the avoid branch of the loop, and how many take the bonus
  branch (listed in \<open>works_well_for\<close> and not in \<open>avoid_if\<close>).
\<close>

definition avoid_hits :: "fit_profile \<Rightarrow> string list \<Rightarrow> nat" where
  "avoid_hits fit issues = length (filter (\<lambda>i. i \<in> set (list_or_empty (avoid_if fit))) issues)"

definition bonus_hits :: "fit_profile \<Rightarrow> string list \<Rightarrow> nat" where
  "bonus_hits fit issues =
    length (filter (\<lambda>i. i \<notin> set (list_or_empty (avoid_if fit))
                        \<and> i \<in> set (list_or_empty (works_well_for fit))) issues)"



section \<open>The ranked output\<close>

text \<open>An entry of a match result: product reference, 1-based rank, score, factor breakdown.\<close>

record match_entry =
  entry_shoe :: string
  entry_rank :: nat
  entry_score :: real
  entry_factors :: "(string \<times> real) list"

text \<open>
  Modelled from the spec: the function that builds the ranked list is not in the source
  (\<open>generate_ranking\<close> is only called).  The spec (4.1) has the scoring engine apply the
  hard category filter first, so that a product of another category never enters ranking,
  then the hard terrain filter (a terrain score of exactly 0 excludes), compute the match
  score of the surviving candidates, and order them strictly, ties broken by sentiment
  score, then product identifier.  Each entry carries the product reference, its 1-based
  rank, its score and the per-factor breakdown (3).  The score of a survivor is the
  source's \<open>calculate_match_score\<close>; an exception it raises ends the request.
\<close>

definition survivors :: "factor_functions \<Rightarrow> user_profile \<Rightarrow> shoe list \<Rightarrow> shoe list" where
  "survivors F up cands =
    filter (\<lambda>sh. calculate_terrain_match F sh up \<noteq> 0)
      (filter (\<lambda>sh. category sh = up_category up) cands)"

fun score_all ::
    "factor_functions \<Rightarrow> user_profile \<Rightarrow> weights \<Rightarrow> shoe list \<Rightarrow> py_error + (shoe \<times> real) list" where
  "score_all F up ws [] = Inr []"
| "score_all F up ws (sh # shs) =
    (case calculate_match_score F sh up ws of
       Inl e \<Rightarrow> Inl e
     | Inr s \<Rightarrow> (case score_all F up ws shs of
                  Inl e \<Rightarrow> Inl e
                | Inr rest \<Rightarrow> Inr ((sh, s) # rest)))"

definition sentiment_signal :: "shoe \<Rightarrow> real" where
  "sentiment_signal sh = float_or (overall_sentiment (fit_profile sh)) 0.5"

text \<open>
  The sort key of a scored candidate, ascending: higher score first, then higher
  sentiment, then the smaller product identifier.
\<close>

definition rank_key :: "shoe \<times> real \<Rightarrow> real \<times> real \<times> string" where
  "rank_key p = (- snd p, - sentiment_signal (fst p), ident (fst p))"

definition to_entries ::
    "factor_functions \<Rightarrow> user_profile \<Rightarrow> (shoe \<times> real) list \<Rightarrow> match_entry list" where
  "to_entries F up ranked =
    map (\<lambda>(i, p). \<lparr>entry_shoe = ident (fst p), entry_rank = Suc i, entry_score = snd p,
                    entry_factors = factor_scores F (fst p) up\<rparr>) (enumerate 0 ranked)"

definition rank_candidates ::
    "factor_functions \<Rightarrow> user_profile \<Rightarrow> shoe list \<Rightarrow> weights \<Rightarrow> py_error + match_entry list" where
  "rank_candidates F up cands ws =
    (case score_all F up ws (survivors F up cands) of
       Inl e \<Rightarrow> Inl e
     | Inr scored \<Rightarrow> Inr (to_entries F up (sort_key rank_key scored)))"

text \<open>What an entry shows of a product: reference, rank and score.\<close>

definition entry_summary :: "match_entry \<Rightarrow> string \<times> nat \<times> real" where
  "entry_summary e = (entry_shoe e, entry_rank e, entry_score e)"

section \<open>Raw reviews and their store\<close>

record raw_review =
  source :: string
  source_review_id :: string
  source_url :: string
  reviewer_name :: "string option"
  rating :: "real option"
  title :: "string option"
  body :: string
  review_date :: "string option"
  reviewer_foot_width :: "string option"
  reviewer_arch_type :: "string option"
  reviewer_size_purchased :: "string option"
  reviewer_typical_size :: "string option"

text \<open>A row of the table \<open>shoe_reviews\<close>: the owning shoe and the scraped review.\<close>

record stored_review =
  sr_shoe_id :: string
  sr_review :: raw_review

text \<open>The columns of \<open>UNIQUE(shoe_id, source, source_review_id)\<close>.\<close>

definition review_key :: "stored_review \<Rightarrow> string \<times> string \<times> string" where
  "review_key row = (sr_shoe_id row, source (sr_review row), source_review_id (sr_review row))"

definition unique_reviews :: "stored_review list \<Rightarrow> bool" where
  "unique_reviews table = distinct (map review_key table)"

datatype json =
  JNull | JBool bool | JNum real | JStr string | JArr "json list" | JObj "(string \<times> json) list"

text \<open>
  A row of \<open>shoe_fit_profiles\<close>: the profile fields, the names of the fields an
  administrator has overridden by hand (the spec's manual-override marker), and the
  \<open>needs_review\<close> flag.
\<close>

record stored_fit =
  sf_profile :: "(string \<times> json) list"
  sf_manual_overrides :: "string list"
  sf_needs_review :: bool

record db =
  shoe_reviews :: "stored_review list"
  shoe_fit_profiles :: "string \<rightharpoonup> stored_fit"
  extraction_queue :: "string list"

text \<open>
  Modelled from the spec: \<open>store_reviews\<close> is called by the scraping task but its body is
  not in the source.  The spec (4.2) says each parsed review is checked against the
  (product, source, source-native-id) uniqueness invariant before storage and a violating
  record is silently skipped, not errored.
\<close>

fun store_reviews :: "string \<Rightarrow> raw_review list \<Rightarrow> stored_review list \<Rightarrow> stored_review list" where
  "store_reviews sid [] table = table"
| "store_reviews sid (r # rs) table =
    (let row = \<lparr>sr_shoe_id = sid, sr_review = r\<rparr>
     in if review_key row \<in> set (map review_key table)
        then store_reviews sid rs table
        else store_reviews sid rs (table @ [row]))"

text \<open>
  The loop of the task \<open>scrape_shoe_reviews\<close>.  A scraper is an external collaborator: for
  each source it yields the reviews it scraped or raises; the \<open>except\<close> branch logs and
  moves on to the next source.  The accumulator is \<open>all_reviews\<close> and the review table.
\<close>

fun scrape_sources ::
    "(string \<Rightarrow> py_error + raw_review list) \<Rightarrow> string \<Rightarrow> string list
      \<Rightarrow> raw_review list \<times> stored_review list \<Rightarrow> raw_review list \<times> stored_review list" where
  "scrape_sources scraper sid [] acc = acc"
| "scrape_sources scraper sid (src # srcs) (all_reviews, table) =
    (case scraper src of
       Inl e \<Rightarrow> scrape_sources scraper sid srcs (all_reviews, table)
     | Inr reviews \<Rightarrow>
         scrape_sources scraper sid srcs (all_reviews @ reviews, store_reviews sid reviews table))"

text \<open>
  \<open>scrape_shoe_reviews\<close>: runs the loop over the sources (the list after the
  \<open>sources or get_default_sources(...)\<close> default), then enqueues one extraction for the
  shoe (\<open>extract_fit_profile.delay(shoe_id)\<close>) and reports the number of reviews scraped.
\<close>

definition scrape_shoe_reviews ::
    "(string \<Rightarrow> py_error + raw_review list) \<Rightarrow> string \<Rightarrow> string list \<Rightarrow> db \<Rightarrow> nat \<times> db" where
  "scrape_shoe_reviews scraper sid sources d =
    (let (all_reviews, table) = scrape_sources scraper sid sources ([], shoe_reviews d)
     in (length all_reviews,
         d\<lparr>shoe_reviews := table, extraction_queue := extraction_queue d @ [sid]\<rparr>))"

definition row_of :: "string \<Rightarrow> raw_review \<Rightarrow> stored_review" where
  "row_of sid r = \<lparr>sr_shoe_id = sid, sr_review = r\<rparr>"

text \<open>All reviews the scrapers of the given sources yield in one run, in source order.\<close>

definition scraped :: "(string \<Rightarrow> py_error + raw_review list) \<Rightarrow> string list \<Rightarrow> raw_review list" where
  "scraped scraper srcs = concat (map (\<lambda>src. case scraper src of Inl e \<Rightarrow> [] | Inr rs \<Rightarrow> rs) srcs)"


section \<open>Fit extraction\<close>
















section \<open>Weight optimizer\<close>

record training_example =
  quiz_answers :: "(string \<times> string) list"
  te_category :: string
  ideal_ranking :: "string list"
  original_ranking :: "string list"
  te_source :: string
  confidence :: real

text \<open>
  \<open>WeightOptimizer.evaluate\<close>: the mean of the ranking metric over the held-out
  examples.  \<open>generate_ranking\<close> and \<open>calculate_ndcg\<close> are called but not given in the
  source; they are parameters.  An empty held-out list divides by zero.
\<close>

definition evaluate ::
    "((string \<times> string) list \<Rightarrow> weights \<Rightarrow> string list) \<Rightarrow> (string list \<Rightarrow> string list \<Rightarrow> real)
      \<Rightarrow> weights \<Rightarrow> training_example list \<Rightarrow> py_error + real" where
  "evaluate generate_ranking calculate_ndcg ws held_out =
    (let scores = map (\<lambda>example. calculate_ndcg (generate_ranking (quiz_answers example) ws)
                                   (ideal_ranking example)) held_out
     in if scores = [] then Inl ZeroDivisionError
        else Inr (sum_list scores / real (length scores)))"

record weight_store =
  active_weights :: weights
  weight_history :: "weights list"
  rejected_proposals :: "weights list"

datatype promotion = Promoted | Rejected

text \<open>
  Modelled from the spec: the promotion step is not in the source (the optimizer class
  only proposes weights and evaluates them).  The spec (4.5, 7) says the proposed vector
  is evaluated on the held-out set and promoted only if its score is not worse than the
  active vector's score by more than the configured tolerance; otherwise it is rejected,
  the prior vector stays active and the rejection is logged; all prior vectors are
  retained for rollback.  An evaluation that raises promotes nothing.
\<close>

definition promote_weights ::
    "((string \<times> string) list \<Rightarrow> weights \<Rightarrow> string list) \<Rightarrow> (string list \<Rightarrow> string list \<Rightarrow> real)
      \<Rightarrow> real \<Rightarrow> training_example list \<Rightarrow> weights \<Rightarrow> weight_store
      \<Rightarrow> py_error + promotion \<times> weight_store" where
  "promote_weights generate_ranking calculate_ndcg tolerance held_out proposed st =
    (case evaluate generate_ranking calculate_ndcg proposed held_out of
       Inl e \<Rightarrow> Inl e
     | Inr proposed_score \<Rightarrow>
        (case evaluate generate_ranking calculate_ndcg (active_weights st) held_out of
           Inl e \<Rightarrow> Inl e
         | Inr active_score \<Rightarrow>
            if active_score - proposed_score > tolerance
            then Inr (Rejected, st\<lparr>rejected_proposals := proposed # rejected_proposals st\<rparr>)
            else Inr (Promoted, st\<lparr>active_weights := proposed,
                                    weight_history := active_weights st # weight_history st\<rparr>)))"

section \<open>Concrete inputs\<close>

definition example_factors :: factor_functions where
  "example_factors =
    \<lparr>calculate_terrain_match = (\<lambda>sh up. 1),
     calculate_arch_match = (\<lambda>sh ft. 1),
     calculate_cushion_match = (\<lambda>sh pr. 1),
     calculate_priority_match = (\<lambda>sh ps. 1),
     calculate_distance_match = (\<lambda>sh ds. 1),
     calculate_position_match = (\<lambda>sh p. 1),
     calculate_budget_match = (\<lambda>price b. 1),
     calculate_history_match = (\<lambda>sh hs. 1)\<rparr>"

definition example_fit :: fit_profile where
  "example_fit =
    \<lparr>width_runs = Some ''wide'', works_well_for = Some [''flat_feet''],
     avoid_if = Some [], overall_sentiment = Some 1\<rparr>"

definition example_shoe :: shoe where
  "example_shoe =
    \<lparr>ident = ''shoe-a'', category = ''running'', fit_profile = example_fit,
     running_attributes = \<lparr>subcategory = Some ''stability''\<rparr>,
     current_price_min = Some 120\<rparr>"

definition example_foot :: foot_profile where
  "example_foot =
    \<lparr>width = Some ''extra_wide'', arch = Some ''flat'', pronation = Some ''overpronation''\<rparr>"

definition example_profile :: user_profile where
  "example_profile =
    \<lparr>up_category = ''running'', foot = example_foot, foot_issues = [''bunions''],
     preferences = [], priorities = [''cushion'', ''durability''], distances = [''marathon''],
     position = None, budget = Some 150, previous_shoes = []\<rparr>"

definition mismatched_shoe :: shoe where
  "mismatched_shoe = example_shoe\<lparr>ident := ''shoe-c'', category := ''basketball''\<rparr>"

definition conflicted_fit :: fit_profile where
  "conflicted_fit = example_fit\<lparr>works_well_for := Some [''bunions''], avoid_if := Some [''bunions'']\<rparr>"

definition flagged_shoe :: shoe where
  "flagged_shoe = example_shoe\<lparr>ident := ''shoe-b'',
      fit_profile := (fit_profile example_shoe)\<lparr>avoid_if := Some [''bunions'']\<rparr>\<rparr>"



definition example_review :: raw_review where
  "example_review =
    \<lparr>source = ''running_warehouse'', source_review_id = ''rw-1001'',
     source_url = ''https://example.test/ghost'', reviewer_name = Some ''Sam'',
     rating = Some 4, title = Some ''Roomy'', body = ''Runs wide in the toe box.'',
     review_date = None, reviewer_foot_width = Some ''wide'', reviewer_arch_type = None,
     reviewer_size_purchased = Some ''10'', reviewer_typical_size = Some ''10''\<rparr>"

definition example_db :: db where
  "example_db =
    \<lparr>shoe_reviews = [\<lparr>sr_shoe_id = ''shoe-a'', sr_review = example_review\<rparr>],
     shoe_fit_profiles = [''shoe-a'' \<mapsto>
        \<lparr>sf_profile = [(''width_runs'', JStr ''true'')], sf_manual_overrides = [],
         sf_needs_review = False\<rparr>],
     extraction_queue = []\<rparr>"


definition example_scraper :: "string \<Rightarrow> py_error + raw_review list" where
  "example_scraper src =
    (if src = ''running_warehouse'' then Inr [example_review] else Inl ScrapeError)"

definition example_ranker :: "(string \<times> string) list \<Rightarrow> weights \<Rightarrow> string list" where
  "example_ranker answers ws =
    (if 1 \<le> dict_get ws ''terrain'' 1 then [''shoe-a'', ''shoe-b''] else [''shoe-b'', ''shoe-a''])"

definition example_ndcg :: "string list \<Rightarrow> string list \<Rightarrow> real" where
  "example_ndcg predicted ideal = (if predicted = ideal then 1 else 0)"

definition example_held_out :: "training_example list" where
  "example_held_out =
    [\<lparr>quiz_answers = [(''terrain'', ''road'')], te_category = ''running'',
      ideal_ranking = [''shoe-a'', ''shoe-b''], original_ranking = [''shoe-a'', ''shoe-b''],
      te_source = ''admin_approval'', confidence = 1\<rparr>]"

definition example_store :: weight_store where
  "example_store =
    \<lparr>active_weights = DEFAULT_WEIGHTS, weight_history = [], rejected_proposals = []\<rparr>"

section \<open>Width compatibility\<close>

lemma width_map_range:
  "map_of width_map k = Some v \<Longrightarrow> 0 \<le> v \<and> v \<le> 1"
  unfolding width_map_def by (auto split: if_splits)

lemma dict_get_width_range:
  "0 \<le> dict_get width_map k (1/2) \<and> dict_get width_map k (1/2) \<le> 1"
proof (cases "map_of width_map k")
  case None
  then show ?thesis by (simp add: dict_get_def)
next
  case (Some v)
  with width_map_range [OF Some] show ?thesis by (simp add: dict_get_def)
qed

lemma dict_get_absent:
  "k \<notin> fst ` set d \<Longrightarrow> dict_get d k dflt = dflt"
  by (simp add: dict_get_def map_of_eq_None_iff [THEN iffD2])

text \<open>
  Claim C9.  The width-compatibility factor has no failing branch and its value always
  lies in [0,1]; a missing shoe width verdict behaves as 'true', a missing user foot width
  as 'standard'; every (shoe width, user width) pair outside the nine table entries gives
  exactly 0.5, in particular every pair whose user width is 'extra_wide'.
\<close>

theorem calculate_width_match_bounded_defaults:
  "0 \<le> calculate_width_match fp ft \<and> calculate_width_match fp ft \<le> 1
   \<and> calculate_width_match (fp\<lparr>width_runs := None\<rparr>) ft
       = calculate_width_match (fp\<lparr>width_runs := Some ''true''\<rparr>) ft
   \<and> calculate_width_match fp (ft\<lparr>width := None\<rparr>)
       = calculate_width_match fp (ft\<lparr>width := Some ''standard''\<rparr>)
   \<and> ((str_or (width_runs fp) ''true'', str_or (width ft) ''standard'')
          \<notin> fst ` set width_map \<longrightarrow> calculate_width_match fp ft = 0.5)
   \<and> (width ft = Some ''extra_wide'' \<longrightarrow> calculate_width_match fp ft = 0.5)"
proof -
  have rng: "0 \<le> calculate_width_match fp ft \<and> calculate_width_match fp ft \<le> 1"
    using dict_get_width_range by (simp add: calculate_width_match_def Let_def)
  have d1: "calculate_width_match (fp\<lparr>width_runs := None\<rparr>) ft
       = calculate_width_match (fp\<lparr>width_runs := Some ''true''\<rparr>) ft"
    by (simp add: calculate_width_match_def str_or_def)
  have d2: "calculate_width_match fp (ft\<lparr>width := None\<rparr>)
       = calculate_width_match fp (ft\<lparr>width := Some ''standard''\<rparr>)"
    by (simp add: calculate_width_match_def str_or_def)
  have out: "(str_or (width_runs fp) ''true'', str_or (width ft) ''standard'')
          \<notin> fst ` set width_map \<longrightarrow> calculate_width_match fp ft = 0.5"
    by (simp add: calculate_width_match_def Let_def dict_get_absent)
  have xw: "width ft = Some ''extra_wide'' \<longrightarrow> calculate_width_match fp ft = 0.5"
    by (simp add: calculate_width_match_def Let_def str_or_def dict_get_def width_map_def)
  from rng d1 d2 out xw show ?thesis by blast
qed

theorem calculate_width_match_bounded_defaults_witness:
  "width example_foot = Some ''extra_wide''
   \<and> (str_or (width_runs example_fit) ''true'', str_or (width example_foot) ''standard'')
         \<notin> fst ` set width_map
   \<and> calculate_width_match example_fit example_foot = 0.5"
  using calculate_width_match_bounded_defaults [of example_fit example_foot]
  by (simp add: example_foot_def example_fit_def str_or_def width_map_def)

section \<open>Issue compatibility\<close>

lemma foldl_issue_step:
  "foldl (issue_step fit) s issues = s * (1/10) ^ avoid_hits fit issues * (12/10) ^ bonus_hits fit issues"
proof (induction issues arbitrary: s)
  case Nil
  then show ?case by (simp add: avoid_hits_def bonus_hits_def)
next
  case (Cons i issues)
  have "foldl (issue_step fit) s (i # issues)
      = issue_step fit s i * (1/10) ^ avoid_hits fit issues * (12/10) ^ bonus_hits fit issues"
    by (simp add: Cons.IH)
  also have "\<dots> = s * (1/10) ^ avoid_hits fit (i # issues) * (12/10) ^ bonus_hits fit (i # issues)"
    by (simp add: issue_step_def avoid_hits_def bonus_hits_def)
  finally show ?case .
qed

lemma foldl_issue_step_pos: "0 < s \<Longrightarrow> 0 < foldl (issue_step fit) s issues"
  by (simp add: foldl_issue_step)

lemma calculate_issue_compatibility_pos: "0 < calculate_issue_compatibility sh issues"
  by (simp add: calculate_issue_compatibility_def Let_def foldl_issue_step_pos)

lemma calculate_issue_compatibility_closed:
  "calculate_issue_compatibility sh issues =
     min ((1/10) ^ avoid_hits (fit_profile sh) issues * (12/10) ^ bonus_hits (fit_profile sh) issues) 1"
  by (cases issues) (simp_all add: calculate_issue_compatibility_def Let_def foldl_issue_step
      avoid_hits_def bonus_hits_def del: foldl_Cons)

text \<open>
  Claim C4 (as amended).  The issue-compatibility factor is multiplicative from the starting
  value 1: a stated condition listed in avoid_if multiplies the running score by 0.1; a
  stated condition listed in works_well_for and not in avoid_if multiplies it by 1.2; any
  other condition leaves it unchanged; the result is the product capped at 1, and lies in
  [0,1].
\<close>

theorem issue_compatibility_multiplicative:
  "(issue \<in> set (list_or_empty (avoid_if fit)) \<longrightarrow> issue_step fit score issue = score * 0.1)
   \<and> (issue \<notin> set (list_or_empty (avoid_if fit)) \<and> issue \<in> set (list_or_empty (works_well_for fit))
        \<longrightarrow> issue_step fit score issue = score * 1.2)
   \<and> (issue \<notin> set (list_or_empty (avoid_if fit)) \<and> issue \<notin> set (list_or_empty (works_well_for fit))
        \<longrightarrow> issue_step fit score issue = score)
   \<and> calculate_issue_compatibility sh issues
        = min (0.1 ^ avoid_hits (fit_profile sh) issues * 1.2 ^ bonus_hits (fit_profile sh) issues) 1
   \<and> 0 \<le> calculate_issue_compatibility sh issues \<and> calculate_issue_compatibility sh issues \<le> 1"
proof -
  have closed: "calculate_issue_compatibility sh issues
        = min (0.1 ^ avoid_hits (fit_profile sh) issues * 1.2 ^ bonus_hits (fit_profile sh) issues) 1"
    using calculate_issue_compatibility_closed [of sh issues] by simp
  have lo: "0 \<le> calculate_issue_compatibility sh issues"
    using calculate_issue_compatibility_pos [of sh issues] by simp
  have hi: "calculate_issue_compatibility sh issues \<le> 1"
    by (simp add: closed)
  have steps: "(issue \<in> set (list_or_empty (avoid_if fit)) \<longrightarrow> issue_step fit score issue = score * 0.1)
   \<and> (issue \<notin> set (list_or_empty (avoid_if fit)) \<and> issue \<in> set (list_or_empty (works_well_for fit))
        \<longrightarrow> issue_step fit score issue = score * 1.2)
   \<and> (issue \<notin> set (list_or_empty (avoid_if fit)) \<and> issue \<notin> set (list_or_empty (works_well_for fit))
        \<longrightarrow> issue_step fit score issue = score)"
    by (simp add: issue_step_def)
  from steps closed lo hi show ?thesis by blast
qed

theorem issue_compatibility_multiplicative_witness:
  "''bunions'' \<in> set (list_or_empty (avoid_if (fit_profile flagged_shoe)))
   \<and> ''flat_feet'' \<notin> set (list_or_empty (avoid_if (fit_profile flagged_shoe)))
   \<and> ''flat_feet'' \<in> set (list_or_empty (works_well_for (fit_profile flagged_shoe)))
   \<and> issue_step (fit_profile flagged_shoe) 1 ''bunions'' = 0.1
   \<and> issue_step (fit_profile flagged_shoe) 1 ''flat_feet'' = 1.2
   \<and> calculate_issue_compatibility flagged_shoe [''bunions'', ''flat_feet''] = 0.12"
proof -
  have a: "avoid_hits (fit_profile flagged_shoe) [''bunions'', ''flat_feet''] = 1"
    by (simp add: avoid_hits_def flagged_shoe_def example_shoe_def example_fit_def list_or_empty_def)
  have b: "bonus_hits (fit_profile flagged_shoe) [''bunions'', ''flat_feet''] = 1"
    by (simp add: bonus_hits_def flagged_shoe_def example_shoe_def example_fit_def list_or_empty_def)
  have m: "''bunions'' \<in> set (list_or_empty (avoid_if (fit_profile flagged_shoe)))
   \<and> ''flat_feet'' \<notin> set (list_or_empty (avoid_if (fit_profile flagged_shoe)))
   \<and> ''flat_feet'' \<in> set (list_or_empty (works_well_for (fit_profile flagged_shoe)))"
    by (simp add: flagged_shoe_def example_shoe_def example_fit_def list_or_empty_def)
  from m a b
    issue_compatibility_multiplicative [of "''bunions''" "fit_profile flagged_shoe" 1
      flagged_shoe "[''bunions'', ''flat_feet'']"]
    issue_compatibility_multiplicative [of "''flat_feet''" "fit_profile flagged_shoe" 1
      flagged_shoe "[''bunions'', ''flat_feet'']"]
  show ?thesis by simp
qed

text \<open>
  The claim as stated lets every condition present in works_well_for multiply the score by
  at least 1.2.  A condition listed in both lists takes the avoid branch only: the step
  multiplies by 0.1.
\<close>

theorem issue_bonus_overridden_counterexample:
  "''bunions'' \<in> set (list_or_empty (works_well_for conflicted_fit))
   \<and> issue_step conflicted_fit 1 ''bunions'' = 0.1
   \<and> \<not> (1.2 * 1 \<le> issue_step conflicted_fit 1 ''bunions'')"
  by (simp add: issue_step_def conflicted_fit_def example_fit_def list_or_empty_def)

section \<open>The weighted combination\<close>

lemma dict_get_distinct:
  "distinct (map fst ws) \<Longrightarrow> (k, w) \<in> set ws \<Longrightarrow> dict_get ws k d = w"
  by (simp add: dict_get_def)

lemma weighted_sum_pairs:
  assumes "distinct (map fst ws)"
  shows "sum_list (map (\<lambda>key. g key * dict_get ws key 1) (map fst ws))
       = (\<Sum>(k, w)\<leftarrow>ws. g k * w)"
proof -
  have pt: "\<And>kw. kw \<in> set ws \<Longrightarrow> g (fst kw) * dict_get ws (fst kw) 1 = (case kw of (k, w) \<Rightarrow> g k * w)"
    using dict_get_distinct [OF assms] by (auto simp: case_prod_beta)
  have eq: "map (\<lambda>kw. g (fst kw) * dict_get ws (fst kw) 1) ws = map (\<lambda>(k, w). g k * w) ws"
    by (rule map_cong [OF refl]) (rule pt)
  have "sum_list (map (\<lambda>key. g key * dict_get ws key 1) (map fst ws))
      = sum_list (map (\<lambda>kw. g (fst kw) * dict_get ws (fst kw) 1) ws)"
    by (simp add: comp_def)
  also have "\<dots> = (\<Sum>(k, w)\<leftarrow>ws. g k * w)" by (simp only: eq)
  finally show ?thesis .
qed

text \<open>
  Claim C2 (as amended).  For a candidate that passes both hard filters, with a weight
  vector of distinct keys and non-zero total, the match score is the weighted mean over the
  weight vector's keys of the factor scores, a key without a computed score counting 0.5.
  Pronation for a non-running shoe scores exactly 1.0; prior-shoe history when none is
  supplied is not computed and so counts 0.5, as does every key that names no factor.
\<close>

theorem weighted_mean_with_half_default:
  assumes "category sh = up_category up" and "calculate_terrain_match F sh up \<noteq> 0"
    and "sum_list (map snd ws) \<noteq> 0" and "distinct (map fst ws)"
  shows "calculate_match_score F sh up ws
       = Inr ((\<Sum>(k, w)\<leftarrow>ws. dict_get (factor_scores F sh up) k 0.5 * w) / sum_list (map snd ws))
     \<and> (category sh \<noteq> ''running'' \<longrightarrow> dict_get (factor_scores F sh up) ''pronation'' 0.5 = 1)
     \<and> (previous_shoes up = [] \<longrightarrow> dict_get (factor_scores F sh up) ''history'' 0.5 = 0.5)
     \<and> (\<forall>k. k \<notin> fst ` set (factor_scores F sh up) \<longrightarrow> dict_get (factor_scores F sh up) k 0.5 = 0.5)"
proof -
  have a: "calculate_match_score F sh up ws
       = Inr ((\<Sum>(k, w)\<leftarrow>ws. dict_get (factor_scores F sh up) k 0.5 * w) / sum_list (map snd ws))"
    using assms(1,2,3) weighted_sum_pairs [OF assms(4), of "\<lambda>k. dict_get (factor_scores F sh up) k 0.5"]
    by (simp add: calculate_match_score_def weighted_combination_def Let_def)
  have b: "category sh \<noteq> ''running'' \<longrightarrow> dict_get (factor_scores F sh up) ''pronation'' 0.5 = 1"
    by (simp add: factor_scores_def dict_get_def calculate_pronation_match_def)
  have c: "previous_shoes up = [] \<longrightarrow> dict_get (factor_scores F sh up) ''history'' 0.5 = 0.5"
    by (simp add: factor_scores_def dict_get_def)
  have d: "\<forall>k. k \<notin> fst ` set (factor_scores F sh up) \<longrightarrow> dict_get (factor_scores F sh up) k 0.5 = 0.5"
    using dict_get_absent by fastforce
  from a b c d show ?thesis by blast
qed

theorem weighted_mean_with_half_default_witness:
  "category example_shoe = up_category example_profile
   \<and> calculate_terrain_match example_factors example_shoe example_profile \<noteq> 0
   \<and> sum_list (map snd [(''issues'', 2), (''history'', 1::real)]) \<noteq> 0
   \<and> distinct (map fst [(''issues'', 2), (''history'', 1::real)])
   \<and> previous_shoes example_profile = []
   \<and> calculate_match_score example_factors example_shoe example_profile
        [(''issues'', 2), (''history'', 1)] = Inr (5/6)"
proof -
  have h1: "category example_shoe = up_category example_profile"
    by (simp add: example_shoe_def example_profile_def)
  have h2: "calculate_terrain_match example_factors example_shoe example_profile \<noteq> 0"
    by (simp add: example_factors_def)
  have h3: "sum_list (map snd [(''issues'', 2), (''history'', 1::real)]) \<noteq> 0" by simp
  have h4: "distinct (map fst [(''issues'', 2), (''history'', 1::real)])" by simp
  have h5: "previous_shoes example_profile = []" by (simp add: example_profile_def)
  have i: "dict_get (factor_scores example_factors example_shoe example_profile) ''issues'' 0.5 = 1"
    by (simp add: factor_scores_def dict_get_def calculate_issue_compatibility_def issue_step_def
        example_shoe_def example_profile_def example_fit_def list_or_empty_def)
  from weighted_mean_with_half_default [OF h1 h2 h3 h4] h5 i
  have "calculate_match_score example_factors example_shoe example_profile
        [(''issues'', 2), (''history'', 1)] = Inr (5/6)"
    by simp
  with h1 h2 h3 h4 h5 show ?thesis by blast
qed

text \<open>
  The claim as stated gives prior-shoe history the neutral score 1.0 when no history is
  supplied.  With no previous shoes and all weight on history the score is 0.5.
\<close>

theorem history_neutral_counterexample:
  "previous_shoes example_profile = []
   \<and> dict_get (factor_scores example_factors example_shoe example_profile) ''history'' 0.5 \<noteq> 1
   \<and> calculate_match_score example_factors example_shoe example_profile [(''history'', 1)] = Inr (1/2)"
  by (simp add: calculate_match_score_def example_shoe_def example_profile_def example_factors_def
      weighted_combination_def factor_scores_def dict_get_def)

section \<open>Monotonicity in the avoid flag\<close>





lemma clamp_total_nonneg: "in_clamp_range ws \<Longrightarrow> 0 \<le> sum_list (map snd ws)"
  by (rule sum_list_nonneg) (auto simp: in_clamp_range_def list_all_iff)

lemma clamp_total_pos: "in_clamp_range ws \<Longrightarrow> ws \<noteq> [] \<Longrightarrow> 0 < sum_list (map snd ws)"
proof (cases ws)
  case Nil
  assume "ws \<noteq> []" with Nil show ?thesis by simp
next
  case (Cons kw rest)
  assume c: "in_clamp_range ws"
  with Cons have "in_clamp_range rest" and "1/10 \<le> snd kw" by (simp_all add: in_clamp_range_def)
  with clamp_total_nonneg [of rest] Cons show ?thesis by simp
qed









section \<open>Properties of the ranked output\<close>

lemma score_all_Inr:
  "score_all F up ws shs = Inr scored \<Longrightarrow>
     map fst scored = shs \<and> (\<forall>p\<in>set scored. calculate_match_score F (fst p) up ws = Inr (snd p))"
proof (induction shs arbitrary: scored)
  case Nil
  then show ?case by simp
next
  case (Cons sh shs)
  from Cons.prems obtain s rest where s: "calculate_match_score F sh up ws = Inr s"
    and r: "score_all F up ws shs = Inr rest" and e: "scored = (sh, s) # rest"
    by (auto split: sum.splits)
  from Cons.IH [OF r] s e show ?case by simp
qed

lemma survivor_scored:
  assumes "sh \<in> set (survivors F up cands)" and "sum_list (map snd ws) \<noteq> 0"
  shows "\<exists>s. calculate_match_score F sh up ws = Inr s"
  using assms by (simp add: survivors_def calculate_match_score_def weighted_combination_def Let_def)

lemma score_all_total:
  assumes "\<And>sh. sh \<in> set shs \<Longrightarrow> \<exists>s. calculate_match_score F sh up ws = Inr s"
  shows "\<exists>scored. score_all F up ws shs = Inr scored"
  using assms
proof (induction shs)
  case Nil
  then show ?case by simp
next
  case (Cons sh shs)
  from Cons.prems obtain s where s: "calculate_match_score F sh up ws = Inr s" by auto
  from Cons.IH Cons.prems obtain rest where "score_all F up ws shs = Inr rest" by auto
  with s show ?case by simp
qed

lemma rank_candidates_total:
  assumes "sum_list (map snd ws) \<noteq> 0"
  shows "\<exists>ranking. rank_candidates F up cands ws = Inr ranking"
proof -
  from score_all_total [of "survivors F up cands" F up ws] survivor_scored [OF _ assms]
  obtain scored where "score_all F up ws (survivors F up cands) = Inr scored" by blast
  then show ?thesis by (simp add: rank_candidates_def)
qed


lemma to_entries_shoes:
  "entry_shoe ` set (to_entries F up ranked) = ident ` fst ` set ranked"
proof -
  have "map entry_shoe (to_entries F up ranked) = map ((ident \<circ> fst) \<circ> snd) (enumerate 0 ranked)"
    by (simp add: to_entries_def case_prod_beta comp_def)
  also have "\<dots> = map (ident \<circ> fst) ranked" by (metis map_map map_snd_enumerate)
  finally have "set (map entry_shoe (to_entries F up ranked)) = set (map (ident \<circ> fst) ranked)" by simp
  then show ?thesis by (simp add: image_comp)
qed

lemma ranking_shoes:
  assumes "rank_candidates F up cands ws = Inr ranking"
  shows "entry_shoe ` set ranking = ident ` set (survivors F up cands)"
proof -
  from assms obtain scored where sc: "score_all F up ws (survivors F up cands) = Inr scored"
    and r: "ranking = to_entries F up (sort_key rank_key scored)"
    by (auto simp: rank_candidates_def split: sum.splits)
  from score_all_Inr [OF sc] have "fst ` set scored = set (survivors F up cands)"
    by (metis set_map)
  with r show ?thesis by (simp add: to_entries_shoes)
qed





text \<open>
  Evaluation of the ranking on the concrete inputs: the definitions to unfold, the issue
  factors of the example products, and the two rankings in which the scores tie.
\<close>

lemmas rank_eval = rank_candidates_def survivors_def to_entries_def rank_key_def sentiment_signal_def
      calculate_match_score_def weighted_combination_def factor_scores_def dict_get_def
      example_factors_def calculate_width_match_def calculate_pronation_match_def
      list_or_empty_def
      str_or_def width_map_def support_map_def float_or_def enumerate_eq_zip entry_summary_def







section \<open>The hard category filter\<close>

text \<open>
  Claim C1.  For every request whose candidates carry distinct identifiers, a candidate
  whose category differs from the requested category has no entry in the returned ranked
  list, whatever its factor functions would score: every entry references a candidate of
  the requested category, so the product is given no score at all in the output (the
  source's \<open>calculate_match_score\<close> would return 0.0 for it, but the ranking never
  asks).  The ranking is returned whenever the weights do not sum to zero.
\<close>

theorem mismatched_category_never_ranked:
  assumes "distinct (map ident cands)" and "sh \<in> set cands" and "category sh \<noteq> up_category up"
  shows "(\<forall>ranking. rank_candidates F up cands ws = Inr ranking \<longrightarrow>
            ident sh \<notin> entry_shoe ` set ranking
            \<and> (\<forall>e\<in>set ranking. \<exists>c\<in>set cands. ident c = entry_shoe e \<and> category c = up_category up))
       \<and> (sum_list (map snd ws) \<noteq> 0 \<longrightarrow> (\<exists>ranking. rank_candidates F up cands ws = Inr ranking))"
proof -
  have a: "ident sh \<notin> entry_shoe ` set ranking
            \<and> (\<forall>e\<in>set ranking. \<exists>c\<in>set cands. ident c = entry_shoe e \<and> category c = up_category up)"
    if r: "rank_candidates F up cands ws = Inr ranking" for ranking
  proof -
    note rs = ranking_shoes [OF r]
    have "ident sh \<notin> ident ` set (survivors F up cands)"
    proof
      assume "ident sh \<in> ident ` set (survivors F up cands)"
      then obtain c where c: "c \<in> set (survivors F up cands)" and i: "ident c = ident sh" by auto
      from c have cc: "c \<in> set cands" and cat: "category c = up_category up"
        by (simp_all add: survivors_def)
      from assms(1,2) cc i have "c = sh" by (meson distinct_map inj_on_def)
      with cat assms(3) show False by simp
    qed
    moreover have "\<exists>c\<in>set cands. ident c = entry_shoe e \<and> category c = up_category up"
      if "e \<in> set ranking" for e
    proof -
      from that rs obtain c where "c \<in> set (survivors F up cands)" and "entry_shoe e = ident c"
        by (metis image_iff)
      then show ?thesis by (auto simp: survivors_def)
    qed
    ultimately show ?thesis using rs by auto
  qed
  have b: "sum_list (map snd ws) \<noteq> 0 \<longrightarrow> (\<exists>ranking. rank_candidates F up cands ws = Inr ranking)"
    using rank_candidates_total by blast
  from a b show ?thesis by blast
qed

theorem mismatched_category_never_ranked_witness:
  "distinct (map ident [example_shoe, mismatched_shoe])
   \<and> mismatched_shoe \<in> set [example_shoe, mismatched_shoe]
   \<and> category mismatched_shoe \<noteq> up_category example_profile
   \<and> sum_list (map snd DEFAULT_WEIGHTS) \<noteq> 0
   \<and> map_sum id (map entry_summary)
        (rank_candidates example_factors example_profile [example_shoe, mismatched_shoe] DEFAULT_WEIGHTS)
       = Inr [(''shoe-a'', 1, 281 / 304)]
   \<and> (\<exists>ranking. rank_candidates example_factors example_profile [example_shoe, mismatched_shoe]
          DEFAULT_WEIGHTS = Inr ranking \<and> ident mismatched_shoe \<notin> entry_shoe ` set ranking)"
proof -
  have h1: "distinct (map ident [example_shoe, mismatched_shoe])"
    by (simp add: mismatched_shoe_def example_shoe_def)
  have h2: "mismatched_shoe \<in> set [example_shoe, mismatched_shoe]" by simp
  have h3: "category mismatched_shoe \<noteq> up_category example_profile"
    by (simp add: mismatched_shoe_def example_shoe_def example_profile_def)
  have h4: "sum_list (map snd DEFAULT_WEIGHTS) \<noteq> 0" by (simp add: DEFAULT_WEIGHTS_def)
  have i: "calculate_issue_compatibility example_shoe (foot_issues example_profile) = 1"
    by (simp add: calculate_issue_compatibility_def issue_step_def list_or_empty_def
        example_shoe_def example_profile_def example_fit_def)
  have r: "map_sum id (map entry_summary)
        (rank_candidates example_factors example_profile [example_shoe, mismatched_shoe] DEFAULT_WEIGHTS)
       = Inr [(''shoe-a'', 1, 281 / 304)]"
    using i by (simp add: rank_eval mismatched_shoe_def example_shoe_def example_profile_def example_fit_def
        example_foot_def DEFAULT_WEIGHTS_def)
  note t = mismatched_category_never_ranked [OF h1 h2 h3, of example_factors DEFAULT_WEIGHTS]
  from t h4 obtain ranking
    where k: "rank_candidates example_factors example_profile [example_shoe, mismatched_shoe]
          DEFAULT_WEIGHTS = Inr ranking" by blast
  with t have "ident mismatched_shoe \<notin> entry_shoe ` set ranking" by blast
  with k have "\<exists>ranking. rank_candidates example_factors example_profile [example_shoe, mismatched_shoe]
          DEFAULT_WEIGHTS = Inr ranking \<and> ident mismatched_shoe \<notin> entry_shoe ` set ranking"
    by blast
  with h1 h2 h3 h4 r show ?thesis by blast
qed

section \<open>The avoid flag in the ranking\<close>




section \<open>Issues never exclude\<close>




section \<open>Validation of the extraction reply\<close>






section \<open>Idempotent ingestion\<close>

lemma store_reviews_append:
  "store_reviews sid (xs @ ys) table = store_reviews sid ys (store_reviews sid xs table)"
  by (induction xs arbitrary: table) (simp_all add: Let_def)

lemma store_reviews_keys:
  "set (map review_key (store_reviews sid rs table))
     = set (map review_key table) \<union> (\<lambda>r. review_key (row_of sid r)) ` set rs"
  by (induction rs arbitrary: table) (auto simp: Let_def row_of_def)

lemma store_reviews_present:
  "(\<lambda>r. review_key (row_of sid r)) ` set rs \<subseteq> set (map review_key table)
     \<Longrightarrow> store_reviews sid rs table = table"
  by (induction rs arbitrary: table) (auto simp: Let_def row_of_def)

lemma store_reviews_extends: "\<exists>new. store_reviews sid rs table = table @ new"
proof (induction rs arbitrary: table)
  case Nil
  then show ?case by simp
next
  case (Cons r rs)
  show ?case
  proof (cases "review_key \<lparr>sr_shoe_id = sid, sr_review = r\<rparr> \<in> set (map review_key table)")
    case True
    with Cons.IH [of table] show ?thesis by (simp add: Let_def)
  next
    case False
    from Cons.IH [of "table @ [\<lparr>sr_shoe_id = sid, sr_review = r\<rparr>]"]
    obtain new where "store_reviews sid rs (table @ [\<lparr>sr_shoe_id = sid, sr_review = r\<rparr>])
        = (table @ [\<lparr>sr_shoe_id = sid, sr_review = r\<rparr>]) @ new" by blast
    with False show ?thesis by (simp add: Let_def)
  qed
qed

lemma store_reviews_unique:
  "unique_reviews table \<Longrightarrow> unique_reviews (store_reviews sid rs table)"
  by (induction rs arbitrary: table) (auto simp: Let_def unique_reviews_def)

lemma store_reviews_idem:
  "store_reviews sid rs (store_reviews sid rs table) = store_reviews sid rs table"
proof (rule store_reviews_present)
  show "(\<lambda>r. review_key (row_of sid r)) ` set rs \<subseteq> set (map review_key (store_reviews sid rs table))"
    unfolding store_reviews_keys by blast
qed

lemma scrape_sources_table:
  "snd (scrape_sources scraper sid srcs (acc, table)) = store_reviews sid (scraped scraper srcs) table"
proof (induction srcs arbitrary: acc table)
  case Nil
  then show ?case by (simp add: scraped_def)
next
  case (Cons src srcs)
  show ?case
  proof (cases "scraper src")
    case (Inl e)
    with Cons.IH show ?thesis by (simp add: scraped_def)
  next
    case (Inr rs)
    with Cons.IH show ?thesis by (simp add: scraped_def store_reviews_append)
  qed
qed

lemma scrape_shoe_reviews_table:
  "shoe_reviews (snd (scrape_shoe_reviews scraper sid srcs d))
     = store_reviews sid (scraped scraper srcs) (shoe_reviews d)"
proof (cases "scrape_sources scraper sid srcs ([], shoe_reviews d)")
  case (Pair all_reviews table)
  with scrape_sources_table [of scraper sid srcs "[]" "shoe_reviews d"]
  show ?thesis by (simp add: scrape_shoe_reviews_def)
qed

text \<open>
  Claim C6.  Storing a review whose (product, source, source-native-id) triple is already
  stored returns the table as it was: no row is added and none is modified.  Every store
  only appends to the table, keeps the triples unique, and storing the same payload again
  changes nothing; running the scraping task a second time with the same scraper results
  leaves the review table as the first run left it.  Neither function has a failing
  outcome.
\<close>

theorem duplicate_ingest_noop:
  "(review_key (row_of sid r) \<in> set (map review_key table) \<longrightarrow> store_reviews sid [r] table = table)
   \<and> (\<exists>new. store_reviews sid rs table = table @ new)
   \<and> store_reviews sid rs (store_reviews sid rs table) = store_reviews sid rs table
   \<and> (unique_reviews table \<longrightarrow> unique_reviews (store_reviews sid rs table))
   \<and> shoe_reviews (snd (scrape_shoe_reviews scraper sid srcs (snd (scrape_shoe_reviews scraper sid srcs d))))
       = shoe_reviews (snd (scrape_shoe_reviews scraper sid srcs d))"
proof -
  have a: "review_key (row_of sid r) \<in> set (map review_key table) \<longrightarrow> store_reviews sid [r] table = table"
    using store_reviews_present [of sid "[r]" table] by simp
  have b: "\<exists>new. store_reviews sid rs table = table @ new" by (rule store_reviews_extends)
  have c: "store_reviews sid rs (store_reviews sid rs table) = store_reviews sid rs table"
    by (rule store_reviews_idem)
  have d: "unique_reviews table \<longrightarrow> unique_reviews (store_reviews sid rs table)"
    using store_reviews_unique by blast
  have e: "shoe_reviews (snd (scrape_shoe_reviews scraper sid srcs (snd (scrape_shoe_reviews scraper sid srcs d))))
       = shoe_reviews (snd (scrape_shoe_reviews scraper sid srcs d))"
    by (simp add: scrape_shoe_reviews_table store_reviews_idem)
  from a b c d e show ?thesis by blast
qed

theorem duplicate_ingest_noop_witness:
  "review_key (row_of ''shoe-a'' example_review) \<in> set (map review_key (shoe_reviews example_db))
   \<and> unique_reviews (shoe_reviews example_db)
   \<and> store_reviews ''shoe-a'' [example_review] (shoe_reviews example_db) = shoe_reviews example_db
   \<and> length (store_reviews ''shoe-a'' [example_review] (shoe_reviews example_db)) = 1
   \<and> unique_reviews (store_reviews ''shoe-a'' [example_review] (shoe_reviews example_db))
   \<and> shoe_reviews (snd (scrape_shoe_reviews example_scraper ''shoe-a''
          [''running_warehouse'', ''fleet_feet'']
          (snd (scrape_shoe_reviews example_scraper ''shoe-a''
             [''running_warehouse'', ''fleet_feet''] example_db))))
       = shoe_reviews example_db"
proof -
  have h: "review_key (row_of ''shoe-a'' example_review) \<in> set (map review_key (shoe_reviews example_db))"
    by (simp add: row_of_def example_db_def)
  have u: "unique_reviews (shoe_reviews example_db)"
    by (simp add: unique_reviews_def example_db_def)
  have l: "length (shoe_reviews example_db) = 1" by (simp add: example_db_def)
  have once: "shoe_reviews (snd (scrape_shoe_reviews example_scraper ''shoe-a''
             [''running_warehouse'', ''fleet_feet''] example_db)) = shoe_reviews example_db"
    by (simp add: scrape_shoe_reviews_def example_scraper_def example_db_def)
  from duplicate_ingest_noop [of "''shoe-a''" example_review "shoe_reviews example_db"
      "[example_review]" example_scraper "[''running_warehouse'', ''fleet_feet'']" example_db]
    h u l once show ?thesis by simp
qed

section \<open>The promotion guard\<close>

text \<open>
  Claim C8.  A proposed weight vector whose held-out score is lower than the active
  vector's held-out score by more than the tolerance is rejected: the active vector and
  the history stay as they were and the proposal is logged as rejected.
\<close>

theorem regressed_proposal_rejected:
  assumes "evaluate gen ndcg proposed held_out = Inr proposed_score"
    and "evaluate gen ndcg (active_weights st) held_out = Inr active_score"
    and "proposed_score < active_score - tolerance"
  shows "\<exists>st'. promote_weights gen ndcg tolerance held_out proposed st = Inr (Rejected, st')
           \<and> active_weights st' = active_weights st
           \<and> weight_history st' = weight_history st
           \<and> rejected_proposals st' = proposed # rejected_proposals st"
  using assms by (simp add: promote_weights_def)

theorem regressed_proposal_rejected_witness:
  "evaluate example_ranker example_ndcg [(''terrain'', 1/10)] example_held_out = Inr 0
   \<and> evaluate example_ranker example_ndcg (active_weights example_store) example_held_out = Inr 1
   \<and> (0::real) < 1 - 1/20
   \<and> (\<exists>st'. promote_weights example_ranker example_ndcg (1/20) example_held_out
              [(''terrain'', 1/10)] example_store = Inr (Rejected, st')
          \<and> active_weights st' = DEFAULT_WEIGHTS)"
proof -
  have h1: "evaluate example_ranker example_ndcg [(''terrain'', 1/10)] example_held_out = Inr 0"
    by (simp add: evaluate_def example_ranker_def example_ndcg_def example_held_out_def dict_get_def)
  have h2: "evaluate example_ranker example_ndcg (active_weights example_store) example_held_out = Inr 1"
    by (simp add: evaluate_def example_ranker_def example_ndcg_def example_held_out_def
        example_store_def DEFAULT_WEIGHTS_def dict_get_def)
  have h3: "(0::real) < 1 - 1/20" by simp
  have a: "active_weights example_store = DEFAULT_WEIGHTS" by (simp add: example_store_def)
  from regressed_proposal_rejected [OF h1 h2 h3] a
  have "\<exists>st'. promote_weights example_ranker example_ndcg (1/20) example_held_out
              [(''terrain'', 1/10)] example_store = Inr (Rejected, st')
          \<and> active_weights st' = DEFAULT_WEIGHTS"
    by auto
  with h1 h2 h3 show ?thesis by blast
qed

end
